theory Spec2Isabelle
  imports Main
begin

section \<open>Values of the JavaScript runtime\<close>

text \<open>
  The server action of \<^verbatim>\<open>src/app/actions.tsx\<close> handles three kinds of data that it does
  not define itself: the JSON bodies the movie metadata provider answers with, the argument
  object the completion service hands to a tool, and the React elements it builds. They are
  modelled here as far as the action reads them.

  A JSON value after \<^verbatim>\<open>response.json()\<close>. The number type is a parameter \<open>'n\<close>: the action
  never computes with a number, it only converts one to text (in a template literal or in
  \<^verbatim>\<open>URLSearchParams\<close>), and that conversion is the parameter \<open>number_to_string\<close> of
  the runtime below. An object lists its own properties in the order in which JavaScript
  enumerates them, with distinct keys (\<^verbatim>\<open>JSON.parse\<close> has already resolved
  duplicates). A \<open>string\<close> stands for the UTF-8 bytes of a JavaScript string.
\<close>

datatype 'n jsval =
    JUndefined
  | JNull
  | JBool bool
  | JNum 'n
  | JStr string
  | JArr "'n jsval list"
  | JObj "(string \<times> 'n jsval) list"

text \<open>
  What the action can throw: a \<^verbatim>\<open>TypeError\<close> (reading a property of \<^verbatim>\<open>null\<close> or
  \<^verbatim>\<open>undefined\<close>, calling something that is not a function), the \<^verbatim>\<open>SyntaxError\<close> of
  \<^verbatim>\<open>response.json()\<close> on a body that is not JSON, a rejected \<^verbatim>\<open>fetch\<close>, and the two
  failures of \<^verbatim>\<open>streamUI\<close> itself. The action has no \<^verbatim>\<open>try\<close>/\<^verbatim>\<open>catch\<close>: every error
  ends the generator that raised it.
\<close>

datatype error =
    TypeError
  | SyntaxError
  | FetchError
  | InvalidToolArguments
  | OracleError

definition and_then :: "error + 'a \<Rightarrow> ('a \<Rightarrow> error + 'b) \<Rightarrow> error + 'b" where
  "and_then r f = (case r of Inl e \<Rightarrow> Inl e | Inr x \<Rightarrow> f x)"

fun map_items :: "('a \<Rightarrow> error + 'b) \<Rightarrow> 'a list \<Rightarrow> error + 'b list" where
  "map_items f [] = Inr []"
| "map_items f (x # xs) =
     and_then (f x) (\<lambda>y. and_then (map_items f xs) (\<lambda>ys. Inr (y # ys)))"

subsection \<open>Strings\<close>

text \<open>\<^verbatim>\<open>Array.prototype.join\<close> on an array of strings.\<close>

fun js_join :: "string list \<Rightarrow> string \<Rightarrow> string" where
  "js_join [] sep = []"
| "js_join [x] sep = x"
| "js_join (x # y # ys) sep = x @ sep @ js_join (y # ys) sep"

text \<open>
  \<^verbatim>\<open>String.prototype.split\<close> with a string separator and no limit: the pieces between
  the successive, non-overlapping occurrences of the separator, found from the left.
  \<open>split_at sep cur s\<close> scans \<open>s\<close> with \<open>cur\<close> the piece read so far. With the empty
  separator JavaScript splits into the single characters; the action only splits at
  \<^verbatim>\<open>", "\<close>.
\<close>

function split_at :: "string \<Rightarrow> string \<Rightarrow> string \<Rightarrow> string list" where
  "split_at sep cur [] = [cur]"
| "split_at sep cur (c # cs) =
     (if sep \<noteq> [] \<and> take (length sep) (c # cs) = sep
      then cur # split_at sep [] (drop (length sep) (c # cs))
      else split_at sep (cur @ [c]) cs)"
  by pat_completeness auto
termination
  by (relation "measure (\<lambda>(sep, cur, s). length s)") (auto simp: neq_Nil_conv)

definition js_split :: "string \<Rightarrow> string \<Rightarrow> string list" where
  "js_split s sep = (if sep = [] then map (\<lambda>c. [c]) s else split_at sep [] s)"

text \<open>
  \<^verbatim>\<open>ToString\<close>, as a template literal \<^verbatim>\<open>${v}\<close> and \<^verbatim>\<open>URLSearchParams\<close> apply it.
  An array joins the texts of its elements with a comma, \<^verbatim>\<open>null\<close> and \<^verbatim>\<open>undefined\<close>
  elements giving the empty text. A parsed JSON object has no callable property of its own:
  it converts through \<^verbatim>\<open>Object.prototype.toString\<close> unless an own property \<^verbatim>\<open>toString\<close>
  hides that method, and then the conversion throws.
\<close>

fun to_string :: "('n \<Rightarrow> string) \<Rightarrow> 'n jsval \<Rightarrow> error + string"
  and element_strings :: "('n \<Rightarrow> string) \<Rightarrow> 'n jsval list \<Rightarrow> error + string list" where
  "to_string nstr JUndefined = Inr ''undefined''"
| "to_string nstr JNull = Inr ''null''"
| "to_string nstr (JBool b) = Inr (if b then ''true'' else ''false'')"
| "to_string nstr (JNum n) = Inr (nstr n)"
| "to_string nstr (JStr s) = Inr s"
| "to_string nstr (JArr xs) = and_then (element_strings nstr xs) (\<lambda>ss. Inr (js_join ss '',''))"
| "to_string nstr (JObj kvs) =
     (if ''toString'' \<in> set (map fst kvs) then Inl TypeError else Inr ''[object Object]'')"
| "element_strings nstr [] = Inr []"
| "element_strings nstr (x # xs) =
     and_then (case x of JUndefined \<Rightarrow> Inr [] | JNull \<Rightarrow> Inr [] | _ \<Rightarrow> to_string nstr x)
       (\<lambda>s. and_then (element_strings nstr xs) (\<lambda>ss. Inr (s # ss)))"

subsection \<open>Property access\<close>

text \<open>
  \<open>get_prop v k\<close> is \<^verbatim>\<open>v.k\<close> for the keys the action reads (\<^verbatim>\<open>Title\<close>, \<^verbatim>\<open>title\<close>,
  \<^verbatim>\<open>overview\<close>, \<^verbatim>\<open>release_date\<close>, \<^verbatim>\<open>vote_average\<close>, \<^verbatim>\<open>Actors\<close>, \<^verbatim>\<open>id\<close>,
  \<^verbatim>\<open>imdbID\<close>, \<^verbatim>\<open>Year\<close>), none of which is a property of a built-in prototype: an
  object answers with its own property or \<^verbatim>\<open>undefined\<close>, every other value but
  \<^verbatim>\<open>null\<close> and \<^verbatim>\<open>undefined\<close> with \<^verbatim>\<open>undefined\<close>.
\<close>

definition get_prop :: "'n jsval \<Rightarrow> string \<Rightarrow> error + 'n jsval" where
  "get_prop v k =
     (case v of
        JUndefined \<Rightarrow> Inl TypeError
      | JNull \<Rightarrow> Inl TypeError
      | JObj kvs \<Rightarrow> Inr (case map_of kvs k of None \<Rightarrow> JUndefined | Some x \<Rightarrow> x)
      | _ \<Rightarrow> Inr JUndefined)"

text \<open>\<^verbatim>\<open>v[0]\<close>: the first element of an array, the first character of a string, the
  property \<^verbatim>\<open>"0"\<close> of an object.\<close>

definition index0 :: "'n jsval \<Rightarrow> error + 'n jsval" where
  "index0 v =
     (case v of
        JUndefined \<Rightarrow> Inl TypeError
      | JNull \<Rightarrow> Inl TypeError
      | JArr xs \<Rightarrow> Inr (case xs of [] \<Rightarrow> JUndefined | x # _ \<Rightarrow> x)
      | JStr s \<Rightarrow> Inr (case s of [] \<Rightarrow> JUndefined | c # _ \<Rightarrow> JStr [c])
      | JObj kvs \<Rightarrow> Inr (case map_of kvs ''0'' of None \<Rightarrow> JUndefined | Some x \<Rightarrow> x)
      | _ \<Rightarrow> Inr JUndefined)"

text \<open>\<^verbatim>\<open>v.split(sep)\<close>: only a string has a callable \<^verbatim>\<open>split\<close>.\<close>

definition call_split :: "'n jsval \<Rightarrow> string \<Rightarrow> error + string list" where
  "call_split v sep = (case v of JStr s \<Rightarrow> Inr (js_split s sep) | _ \<Rightarrow> Inl TypeError)"

text \<open>\<^verbatim>\<open>v.map(f)\<close>: only an array has a callable \<^verbatim>\<open>map\<close>; the callback runs on the
  elements from the left and the first error ends the call.\<close>

definition call_map :: "'n jsval \<Rightarrow> ('n jsval \<Rightarrow> error + 'b) \<Rightarrow> error + 'b list" where
  "call_map v f = (case v of JArr xs \<Rightarrow> map_items f xs | _ \<Rightarrow> Inl TypeError)"

subsection \<open>React elements\<close>

text \<open>
  A renderable, as the JSX of the action builds it: an element with its tag, its props and
  its children, a fragment, an array of nodes (the result of \<^verbatim>\<open>map\<close>), or a JavaScript
  value standing as a child. Literal JSX text is a string child. An element is the data the
  JSX expression names: what React does with it later (rendering it, reading its
  \<^verbatim>\<open>key\<close>) is outside the action.
\<close>

datatype 'n node =
    Val "'n jsval"
  | El string "(string \<times> 'n jsval) list" "'n node list"
  | Fragment "'n node list"
  | Nodes "'n node list"

abbreviation Text :: "string \<Rightarrow> 'n node" where
  "Text s \<equiv> Val (JStr s)"

section \<open>The conversation store\<close>

datatype role = User | Assistant | System

datatype tool = Get_movie_info | Get_movie_cast | Search_movie_title | Filter_movies

text \<open>
  An entry of \<^verbatim>\<open>AIState\<close> (lines 279 to 284). \<open>toolInvocations\<close> is the extra field
  the action gives the system message (line 50).
\<close>

record message =
  ident :: "nat option"
  name :: "tool option"
  role :: role
  content :: string
  toolInvocations :: "unit list option"

text \<open>
  Modelled from the spec: the mutable AI state of one call, which the action obtains from
  \<^verbatim>\<open>getMutableAIState\<close> of the \<^verbatim>\<open>ai/rsc\<close> library (line 34). By section 3 of the spec
  the store is mutated by two operations only: \<^verbatim>\<open>update\<close> replaces the list and leaves
  the turn open, \<^verbatim>\<open>done\<close> replaces it and closes the turn; \<^verbatim>\<open>get\<close> reads the current
  list.
\<close>

record history =
  current :: "message list"
  sealed :: bool

definition getMutableAIState :: "message list \<Rightarrow> history" where
  "getMutableAIState state = \<lparr>current = state, sealed = False\<rparr>"

definition history_get :: "history \<Rightarrow> message list" where
  "history_get h = current h"

definition history_update :: "history \<Rightarrow> message list \<Rightarrow> history" where
  "history_update h ms = h\<lparr>current := ms\<rparr>"

definition history_done :: "history \<Rightarrow> message list \<Rightarrow> history" where
  "history_done h ms = h\<lparr>current := ms, sealed := True\<rparr>"

definition user_message :: "string \<Rightarrow> message" where
  "user_message text =
     \<lparr>ident = None, name = None, role = User, content = text, toolInvocations = None\<rparr>"

definition assistant_message :: "tool option \<Rightarrow> string \<Rightarrow> message" where
  "assistant_message t text =
     \<lparr>ident = None, name = t, role = Assistant, content = text, toolInvocations = None\<rparr>"

section \<open>The world outside the action\<close>

record request =
  url :: string
  headers :: "(string \<times> string) list"

text \<open>A fulfilled \<^verbatim>\<open>fetch\<close>: the status flag \<^verbatim>\<open>response.ok\<close> and what
  \<^verbatim>\<open>response.json()\<close> gives, \<open>None\<close> when the body is not JSON.\<close>

record 'n response =
  ok :: bool
  json :: "'n jsval option"

text \<open>
  The decision of the completion service for one request: text, arriving in pieces, or one
  tool with its argument object, or a failure.
\<close>

datatype 'n oracle_reply =
    Reply_text "string list"
  | Reply_tool tool "'n jsval"
  | Reply_error

text \<open>
  Everything the action reads from its environment during one call: the provider key, the
  runtime's conversion of a number to text, the network, the completion service and the
  clock.
\<close>

record 'n runtime =
  RAPIDAPI_KEY :: string
  number_to_string :: "'n \<Rightarrow> string"
  fetch :: "request \<Rightarrow> error + 'n response"
  completion :: "message list \<Rightarrow> 'n oracle_reply"
  now :: int

section \<open>The query string of the filter\<close>

text \<open>
  \<^verbatim>\<open>new URLSearchParams(params)\<close> on an object takes its own properties in order and
  converts every value to text. \<^verbatim>\<open>toString()\<close> serialises the pairs in the
  \<^verbatim>\<open>application/x-www-form-urlencoded\<close> format: a space becomes \<^verbatim>\<open>+\<close>, the ASCII letters
  and digits and \<^verbatim>\<open>*\<close>, \<^verbatim>\<open>-\<close>, \<^verbatim>\<open>.\<close>, \<^verbatim>\<open>_\<close> stay, every other byte becomes
  \<^verbatim>\<open>%\<close> and two upper-case hexadecimal digits; name and value are joined by \<^verbatim>\<open>=\<close> and
  the pairs by \<^verbatim>\<open>&\<close>.
\<close>

definition unreserved :: "char \<Rightarrow> bool" where
  "unreserved c =
     (let n = (of_char c :: nat)
      in (48 \<le> n \<and> n \<le> 57) \<or> (65 \<le> n \<and> n \<le> 90) \<or> (97 \<le> n \<and> n \<le> 122)
         \<or> n = 42 \<or> n = 45 \<or> n = 46 \<or> n = 95)"

definition hex_digit :: "nat \<Rightarrow> char" where
  "hex_digit n = ''0123456789ABCDEF'' ! (n mod 16)"

definition encode_byte :: "char \<Rightarrow> string" where
  "encode_byte c =
     (if c = CHR '' '' then ''+''
      else if unreserved c then [c]
      else [CHR ''%'', hex_digit ((of_char c :: nat) div 16), hex_digit ((of_char c :: nat) mod 16)])"

definition form_urlencode :: "string \<Rightarrow> string" where
  "form_urlencode s = concat (map encode_byte s)"

definition URLSearchParams ::
  "('n \<Rightarrow> string) \<Rightarrow> (string \<times> 'n jsval) list \<Rightarrow> error + (string \<times> string) list" where
  "URLSearchParams nstr init =
     map_items (\<lambda>(k, v). and_then (to_string nstr v) (\<lambda>s. Inr (k, s))) init"

definition params_toString :: "(string \<times> string) list \<Rightarrow> string" where
  "params_toString ps =
     js_join (map (\<lambda>(k, v). form_urlencode k @ ''='' @ form_urlencode v) ps) ''&''"

section \<open>The tools\<close>

text \<open>
  The result of running one \<^verbatim>\<open>generate\<close> (an async generator) to its end: the values it
  yielded, the value it returned or the error that ended it, and the conversation store it
  leaves. \<^verbatim>\<open>sleep(1000)\<close> only waits and \<^verbatim>\<open>console.log\<close> only prints: neither has a
  part in the model.
\<close>

record 'n generated =
  yields :: "'n node list"
  returned :: "error + 'n node"
  after :: history

definition api_request :: "'n runtime \<Rightarrow> string \<Rightarrow> request" where
  "api_request rt u =
     \<lparr>url = u,
      headers = [(''x-rapidapi-host'', ''moviedatabase8.p.rapidapi.com''),
                 (''x-rapidapi-key'', RAPIDAPI_KEY rt)]\<rparr>"

subsection \<open>\<^verbatim>\<open>get_movie_info\<close> (lines 65 to 111)\<close>

definition get_movie_info_request :: "'n runtime \<Rightarrow> string \<Rightarrow> request" where
  "get_movie_info_request rt imdbId =
     api_request rt (''https://moviedatabase8.p.rapidapi.com/FindByImbdId/'' @ imdbId)"

text \<open>The text of the summary, line 98: \<^verbatim>\<open>`[Information about ${movie[0].Title}]`\<close>.\<close>

definition get_movie_info_summary :: "'n runtime \<Rightarrow> 'n jsval \<Rightarrow> error + string" where
  "get_movie_info_summary rt movie =
     and_then (index0 movie) (\<lambda>m.
     and_then (get_prop m ''Title'') (\<lambda>t.
     and_then (to_string (number_to_string rt) t) (\<lambda>s.
     Inr (''[Information about '' @ s @ '']''))))"

text \<open>The fragment returned, lines 102 to 109.\<close>

definition get_movie_info_view :: "'n jsval \<Rightarrow> error + 'n node" where
  "get_movie_info_view movie =
     and_then (index0 movie) (\<lambda>m.
     and_then (get_prop m ''title'') (\<lambda>title.
     and_then (get_prop m ''overview'') (\<lambda>overview.
     and_then (get_prop m ''release_date'') (\<lambda>release_date.
     and_then (get_prop m ''vote_average'') (\<lambda>vote_average.
     Inr (Fragment
       [El ''h2'' [] [Val title],
        El ''p'' [] [Val overview],
        El ''p'' [] [Text ''Release Date: '', Val release_date],
        El ''p'' [] [Text ''Rating: '', Val vote_average]]))))))"

definition get_movie_info_generate :: "'n runtime \<Rightarrow> string \<Rightarrow> history \<Rightarrow> 'n generated" where
  "get_movie_info_generate rt imdbId history =
     (let loading = [El ''div'' [] [Text ''Loading movie information...'']] in
      case fetch rt (get_movie_info_request rt imdbId) of
        Inl e \<Rightarrow> \<lparr>yields = loading, returned = Inl e, after = history\<rparr>
      | Inr response \<Rightarrow>
          if \<not> ok response
          then \<lparr>yields = loading, returned = Inr (El ''div'' [] [Text ''Movie not found!'']),
                after = history\<rparr>
          else
            (case json response of
               None \<Rightarrow> \<lparr>yields = loading, returned = Inl SyntaxError, after = history\<rparr>
             | Some movie \<Rightarrow>
                 (case get_movie_info_summary rt movie of
                    Inl e \<Rightarrow> \<lparr>yields = loading, returned = Inl e, after = history\<rparr>
                  | Inr summary \<Rightarrow>
                      \<lparr>yields = loading,
                       returned = get_movie_info_view movie,
                       after = history_done history
                         (history_get history @
                          [assistant_message (Some Get_movie_info) summary])\<rparr>)))"

subsection \<open>\<^verbatim>\<open>get_movie_cast\<close> (lines 112 to 157)\<close>

definition get_movie_cast_request :: "'n runtime \<Rightarrow> string \<Rightarrow> request" where
  "get_movie_cast_request rt imdbId =
     api_request rt (''https://moviedatabase8.p.rapidapi.com/FindByImbdId/'' @ imdbId)"

text \<open>Line 137: \<^verbatim>\<open>movie[0].Actors.split(', ')\<close>.\<close>

definition get_movie_cast_cast :: "'n jsval \<Rightarrow> error + string list" where
  "get_movie_cast_cast movie =
     and_then (index0 movie) (\<lambda>m.
     and_then (get_prop m ''Actors'') (\<lambda>actors.
     call_split actors '', ''))"

text \<open>Line 146: \<^verbatim>\<open>`[Cast of ${movie[0].Title}]`\<close>.\<close>

definition get_movie_cast_summary :: "'n runtime \<Rightarrow> 'n jsval \<Rightarrow> error + string" where
  "get_movie_cast_summary rt movie =
     and_then (index0 movie) (\<lambda>m.
     and_then (get_prop m ''Title'') (\<lambda>t.
     and_then (to_string (number_to_string rt) t) (\<lambda>s.
     Inr (''[Cast of '' @ s @ '']''))))"

text \<open>The element returned, lines 150 to 155.\<close>

definition get_movie_cast_view :: "'n jsval \<Rightarrow> string list \<Rightarrow> error + 'n node" where
  "get_movie_cast_view movie cast =
     and_then (index0 movie) (\<lambda>m.
     and_then (get_prop m ''Title'') (\<lambda>title.
     Inr (El ''div'' []
       [El ''h2'' [] [Text ''Cast of '', Val title],
        El ''p'' [] [Text (js_join cast '', '')]])))"

definition get_movie_cast_generate :: "'n runtime \<Rightarrow> string \<Rightarrow> history \<Rightarrow> 'n generated" where
  "get_movie_cast_generate rt imdbId history =
     (let loading = [El ''div'' [] [Text ''Loading movie cast...'']] in
      case fetch rt (get_movie_cast_request rt imdbId) of
        Inl e \<Rightarrow> \<lparr>yields = loading, returned = Inl e, after = history\<rparr>
      | Inr response \<Rightarrow>
          if \<not> ok response
          then \<lparr>yields = loading, returned = Inr (El ''div'' [] [Text ''Cast not found!'']),
                after = history\<rparr>
          else
            (case json response of
               None \<Rightarrow> \<lparr>yields = loading, returned = Inl SyntaxError, after = history\<rparr>
             | Some movie \<Rightarrow>
                 (case get_movie_cast_cast movie of
                    Inl e \<Rightarrow> \<lparr>yields = loading, returned = Inl e, after = history\<rparr>
                  | Inr cast \<Rightarrow>
                      (case get_movie_cast_summary rt movie of
                         Inl e \<Rightarrow> \<lparr>yields = loading, returned = Inl e, after = history\<rparr>
                       | Inr summary \<Rightarrow>
                           \<lparr>yields = loading,
                            returned = get_movie_cast_view movie cast,
                            after = history_done history
                              (history_get history @
                               [assistant_message (Some Get_movie_cast) summary])\<rparr>))))"

subsection \<open>\<^verbatim>\<open>search_movie_title\<close> (lines 158 to 208)\<close>

definition search_movie_title_request :: "'n runtime \<Rightarrow> string \<Rightarrow> request" where
  "search_movie_title_request rt title =
     api_request rt (''https://moviedatabase8.p.rapidapi.com/Search/'' @ title)"

text \<open>
  The element returned, lines 197 to 206. \<^verbatim>\<open>movies?.map(...)\<close> is \<^verbatim>\<open>undefined\<close> when
  the body is \<^verbatim>\<open>null\<close>, and the call of \<^verbatim>\<open>map\<close> otherwise.
\<close>

definition search_movie_title_view :: "string \<Rightarrow> 'n jsval \<Rightarrow> error + 'n node" where
  "search_movie_title_view title movies =
     and_then
       (case movies of
          JUndefined \<Rightarrow> Inr (Val JUndefined)
        | JNull \<Rightarrow> Inr (Val JUndefined)
        | _ \<Rightarrow>
           and_then
             (call_map movies (\<lambda>movie.
                and_then (get_prop movie ''id'') (\<lambda>k.
                and_then (get_prop movie ''title'') (\<lambda>t.
                Inr (El ''li'' [(''key'', k)] [Val t])))))
             (\<lambda>items. Inr (Nodes items)))
       (\<lambda>items.
          Inr (El ''div'' []
            [El ''h2'' [] [Text (''Movies matching '' @ [CHR 0x22]), Text title, Text [CHR 0x22]],
             El ''ul'' [] [items]]))"

definition search_movie_title_generate :: "'n runtime \<Rightarrow> string \<Rightarrow> history \<Rightarrow> 'n generated" where
  "search_movie_title_generate rt title history =
     (let loading = [El ''div'' [] [Text ''Searching for movies...'']] in
      case fetch rt (search_movie_title_request rt title) of
        Inl e \<Rightarrow> \<lparr>yields = loading, returned = Inl e, after = history\<rparr>
      | Inr response \<Rightarrow>
          if \<not> ok response
          then \<lparr>yields = loading, returned = Inr (El ''div'' [] [Text ''No movies found!'']),
                after = history\<rparr>
          else
            (case json response of
               None \<Rightarrow> \<lparr>yields = loading, returned = Inl SyntaxError, after = history\<rparr>
             | Some movies \<Rightarrow>
                 \<lparr>yields = loading,
                  returned = search_movie_title_view title movies,
                  after = history_done history
                    (history_get history @
                     [assistant_message (Some Search_movie_title)
                        (''[Movies matching '' @ [CHR 0x22] @ title @ [CHR 0x22] @ '']'')])\<rparr>))"

subsection \<open>\<^verbatim>\<open>filter_movies\<close> (lines 209 to 267)\<close>

definition filter_movies_request :: "'n runtime \<Rightarrow> string \<Rightarrow> request" where
  "filter_movies_request rt query =
     api_request rt (''https://moviedatabase8.p.rapidapi.com/Filter?'' @ query)"

text \<open>Line 231: \<^verbatim>\<open>new URLSearchParams(params).toString()\<close>.\<close>

definition filter_movies_query ::
  "'n runtime \<Rightarrow> (string \<times> 'n jsval) list \<Rightarrow> error + string" where
  "filter_movies_query rt params =
     and_then (URLSearchParams (number_to_string rt) params) (\<lambda>ps. Inr (params_toString ps))"

text \<open>The element returned, lines 256 to 265.\<close>

definition filter_movies_view :: "'n jsval \<Rightarrow> error + 'n node" where
  "filter_movies_view movies =
     and_then
       (call_map movies (\<lambda>movie.
          and_then (get_prop movie ''imdbID'') (\<lambda>k.
          and_then (get_prop movie ''Title'') (\<lambda>t.
          and_then (get_prop movie ''Year'') (\<lambda>y.
          Inr (El ''li'' [(''key'', k)] [Val t, Text '' ('', Val y, Text '')'']))))))
       (\<lambda>items.
          Inr (El ''div'' []
            [El ''h2'' [] [Text ''Movies matching criteria''],
             El ''ul'' [] [Nodes items]]))"

definition filter_movies_generate ::
  "'n runtime \<Rightarrow> (string \<times> 'n jsval) list \<Rightarrow> history \<Rightarrow> 'n generated" where
  "filter_movies_generate rt params history =
     (let loading = [El ''div'' [] [Text ''Filtering movies...'']] in
      case filter_movies_query rt params of
        Inl e \<Rightarrow> \<lparr>yields = loading, returned = Inl e, after = history\<rparr>
      | Inr query \<Rightarrow>
         (case fetch rt (filter_movies_request rt query) of
            Inl e \<Rightarrow> \<lparr>yields = loading, returned = Inl e, after = history\<rparr>
          | Inr response \<Rightarrow>
              if \<not> ok response
              then \<lparr>yields = loading,
                    returned = Inr (El ''div'' []
                      [Text ''No movies found with the specified criteria!'']),
                    after = history\<rparr>
              else
                (case json response of
                   None \<Rightarrow> \<lparr>yields = loading, returned = Inl SyntaxError, after = history\<rparr>
                 | Some movies \<Rightarrow>
                     \<lparr>yields = loading,
                      returned = filter_movies_view movies,
                      after = history_done history
                        (history_get history @
                         [assistant_message (Some Filter_movies)
                            ''[Movies matching criteria]''])\<rparr>)))"

section \<open>The tool registry\<close>

text \<open>
  Modelled from the spec: validation of a tool's argument object against the \<^verbatim>\<open>zod\<close>
  schema the source declares for it (lines 68 to 72, 115 to 119, 161 to 165 and 212 to 225).
  The validator itself belongs to the \<^verbatim>\<open>zod\<close> library; the spec (section 4.1) says
  that a parameter bag reaches a Lookup Executor only when it matches the declared schema.
  A schema of the source is an object of fields, each a string or a number, required or
  optional; a key the schema does not declare is dropped, the fields that pass are kept in
  the order of the schema, and an optional field also passes when it is \<^verbatim>\<open>undefined\<close>.
\<close>

datatype zod_type = ZString | ZNumber

fun zod_accepts :: "zod_type \<Rightarrow> 'n jsval \<Rightarrow> bool" where
  "zod_accepts ZString (JStr s) = True"
| "zod_accepts ZNumber (JNum n) = True"
| "zod_accepts t v = False"

fun zod_parse_optional ::
  "(string \<times> zod_type) list \<Rightarrow> (string \<times> 'n jsval) list \<Rightarrow> (string \<times> 'n jsval) list option" where
  "zod_parse_optional [] data = Some []"
| "zod_parse_optional ((k, t) # schema) data =
     (case map_of data k of
        None \<Rightarrow> zod_parse_optional schema data
      | Some v \<Rightarrow>
          if v = JUndefined \<or> zod_accepts t v
          then map_option (\<lambda>rest. (k, v) # rest) (zod_parse_optional schema data)
          else None)"

definition zod_parse_string_field :: "string \<Rightarrow> 'n jsval \<Rightarrow> string option" where
  "zod_parse_string_field k args =
     (case args of
        JObj data \<Rightarrow> (case map_of data k of Some (JStr s) \<Rightarrow> Some s | _ \<Rightarrow> None)
      | _ \<Rightarrow> None)"

text \<open>The schema of \<^verbatim>\<open>filter_movies\<close>, lines 212 to 225.\<close>

definition filter_movies_parameters :: "(string \<times> zod_type) list" where
  "filter_movies_parameters =
     [(''MinRating'', ZNumber), (''MaxRating'', ZNumber),
      (''MinYear'', ZNumber), (''MaxYear'', ZNumber),
      (''MinRevenue'', ZNumber), (''MaxRevenue'', ZNumber),
      (''Genre'', ZString),
      (''MinRuntime'', ZNumber), (''MaxRuntime'', ZNumber),
      (''OriginalLanguage'', ZString), (''SpokenLanguage'', ZString),
      (''Limit'', ZNumber)]"

text \<open>A tool together with its validated parameters.\<close>

datatype 'n tool_call =
    Call_get_movie_info string
  | Call_get_movie_cast string
  | Call_search_movie_title string
  | Call_filter_movies "(string \<times> 'n jsval) list"

fun validate :: "tool \<Rightarrow> 'n jsval \<Rightarrow> 'n tool_call option" where
  "validate Get_movie_info args =
     map_option Call_get_movie_info (zod_parse_string_field ''imdbId'' args)"
| "validate Get_movie_cast args =
     map_option Call_get_movie_cast (zod_parse_string_field ''imdbId'' args)"
| "validate Search_movie_title args =
     map_option Call_search_movie_title (zod_parse_string_field ''title'' args)"
| "validate Filter_movies args =
     (case args of
        JObj data \<Rightarrow> map_option Call_filter_movies (zod_parse_optional filter_movies_parameters data)
      | _ \<Rightarrow> None)"

fun generate :: "'n runtime \<Rightarrow> 'n tool_call \<Rightarrow> history \<Rightarrow> 'n generated" where
  "generate rt (Call_get_movie_info imdbId) history = get_movie_info_generate rt imdbId history"
| "generate rt (Call_get_movie_cast imdbId) history = get_movie_cast_generate rt imdbId history"
| "generate rt (Call_search_movie_title title) history =
     search_movie_title_generate rt title history"
| "generate rt (Call_filter_movies params) history = filter_movies_generate rt params history"

text \<open>The renderables one run of a tool produces, in order.\<close>

definition renderables :: "'n generated \<Rightarrow> 'n node list" where
  "renderables g = yields g @ (case returned g of Inl e \<Rightarrow> [] | Inr n \<Rightarrow> [n])"

definition raised :: "'n generated \<Rightarrow> error option" where
  "raised g = (case returned g of Inl e \<Rightarrow> Some e | Inr n \<Rightarrow> None)"

section \<open>The orchestrator\<close>

text \<open>The system instruction, lines 13 to 26.\<close>

definition system_content :: string where
  "system_content =
     ''You are a movie bot and you can help users get information about movies.'' @ [CHR 0x0A] @
     [CHR 0x0A] @
     ''Messages inside [] means that it's a UI element or a user event. For example:'' @ [CHR 0x0A] @
     ''- '' @ [CHR 0x22] @ ''[Information about Inception]'' @ [CHR 0x22] @
     '' means that the interface of the movie information about Inception is shown to the user.'' @ [CHR 0x0A] @
     [CHR 0x0A] @
     ''If the user wants information about a movie, call '' @ [CHR 0x60] @ ''get_movie_info'' @ [CHR 0x60] @
     '' to show the information.'' @ [CHR 0x0A] @
     ''If the user wants the cast of a movie, call '' @ [CHR 0x60] @ ''get_movie_cast'' @ [CHR 0x60] @
     '' to show the cast.'' @ [CHR 0x0A] @
     ''If the user wants to search for movies by title, call '' @ [CHR 0x60] @ ''search_movie_title'' @ [CHR 0x60] @
     ''.'' @ [CHR 0x0A] @
     ''If the user wants to filter movies by criteria, call '' @ [CHR 0x60] @ ''filter_movies'' @ [CHR 0x60] @
     ''.'' @ [CHR 0x0A] @
     ''If the user wants to do anything else, it is an impossible task, so you should respond that you are a demo and cannot do that.'' @ [CHR 0x0A] @
     [CHR 0x0A] @
     ''Besides getting information about movies, you can also chat with users.'' @ [CHR 0x0A]"

definition system_message :: message where
  "system_message =
     \<lparr>ident = None, name = None, role = System, content = system_content,
      toolInvocations = Some []\<rparr>"

text \<open>The placeholder shown first, lines 54 to 58.\<close>

definition initial :: "'n node" where
  "initial =
     El ''div'' [(''className'', JStr ''items-center flex shrink-0 select-none justify-center'')]
       [El ''Loader2'' [(''className'', JStr ''h-5 w-5 animate-spin stroke-zinc-900'')] []]"

text \<open>The text handler, lines 59 to 63.\<close>

definition text_handler :: "string \<Rightarrow> bool \<Rightarrow> history \<Rightarrow> 'n node \<times> history" where
  "text_handler content' done' history =
     (El ''div'' [] [Text content'],
      if done' then history_done history (history_get history @ [assistant_message None content'])
      else history)"

text \<open>The texts accumulated after each piece of a streamed reply.\<close>

fun accumulated :: "string \<Rightarrow> string list \<Rightarrow> string list" where
  "accumulated acc [] = []"
| "accumulated acc (d # ds) = (acc @ d) # accumulated (acc @ d) ds"

text \<open>
  What one call of \<^verbatim>\<open>streamUI\<close> leaves: the renderables it showed, in order (the
  caller's \<^verbatim>\<open>reply.value\<close> displays the last of them), the error that ended the turn, if
  any, and the conversation store.
\<close>

record 'n streamed =
  rendered :: "'n node list"
  thrown :: "error option"
  store :: history

text \<open>
  Modelled from the spec: \<^verbatim>\<open>streamUI\<close> of the \<^verbatim>\<open>ai/rsc\<close> library, which the action
  calls with its messages, its placeholder, its text handler and its tools (lines 44 to
  270). By section 4.1 of the spec, steps 3 and 4: the placeholder is shown first; on the
  text path every piece of text is rendered through the text handler as it arrives, and the
  handler is called once more, with the full text and \<^verbatim>\<open>done\<close> set, when the reply is
  complete; on the tool path the parameter bag is validated against the tool's schema,
  invalid parameters are fatal for the turn, and a valid call runs the tool's
  \<^verbatim>\<open>generate\<close>, whose values are shown as they come. A failure of the completion
  service is fatal for the turn.
\<close>

definition streamUI :: "'n runtime \<Rightarrow> message list \<Rightarrow> history \<Rightarrow> 'n streamed" where
  "streamUI rt messages history =
     (case completion rt messages of
        Reply_error \<Rightarrow> \<lparr>rendered = [initial], thrown = Some OracleError, store = history\<rparr>
      | Reply_text deltas \<Rightarrow>
          (let partial = map (\<lambda>c. fst (text_handler c False history)) (accumulated [] deltas);
               final = text_handler (concat deltas) True history
           in \<lparr>rendered = initial # partial @ [fst final], thrown = None, store = snd final\<rparr>)
      | Reply_tool t args \<Rightarrow>
          (case validate t args of
             None \<Rightarrow>
               \<lparr>rendered = [initial], thrown = Some InvalidToolArguments, store = history\<rparr>
           | Some call \<Rightarrow>
               (let g = generate rt call history
                in \<lparr>rendered = initial # renderables g, thrown = raised g, store = after g\<rparr>)))"

text \<open>
  The result of \<^verbatim>\<open>sendMessage\<close> (lines 28 to 277): the message list it sent to the
  completion service, the three fields of the value it returns, the error that ended the
  turn, if any, and the conversation store after the turn.
\<close>

record 'n turn =
  sent :: "message list"
  reply_id :: int
  reply_role :: role
  display :: "'n node list"
  failure :: "error option"
  state :: history

definition sendMessage :: "'n runtime \<Rightarrow> string \<Rightarrow> message list \<Rightarrow> 'n turn" where
  "sendMessage rt message' aiState =
     (let history = getMutableAIState aiState;
          history = history_update history (history_get history @ [user_message message']);
          messages = system_message # history_get history;
          reply = streamUI rt messages history
      in \<lparr>sent = messages, reply_id = now rt, reply_role = Assistant,
          display = rendered reply, failure = thrown reply, state = store reply\<rparr>)"

text \<open>
  Modelled from the spec: how the store passes from one call of \<^verbatim>\<open>sendMessage\<close> to the
  next, which the \<^verbatim>\<open>ai/rsc\<close> library decides (\<^verbatim>\<open>createAI\<close>, lines 294 to 300). By
  section 3 of the spec, \<^verbatim>\<open>update\<close> appends without closing the turn and only the
  commit (\<^verbatim>\<open>done\<close>) marks the turn closed and durable: the store a turn leaves is
  held for the next turn when the turn was closed, and a turn that was never closed leaves
  the held store as it was. A session runs the turns one after the other on the held store;
  a turn is the environment it runs in and the text of the user.
\<close>

definition held_after :: "message list \<Rightarrow> history \<Rightarrow> message list" where
  "held_after aiState h = (if sealed h then current h else aiState)"


section \<open>Vocabulary of the properties\<close>

text \<open>The in-progress value of each tool (lines 75, 122, 168 and 228) and its "not found"
  value (lines 86, 133, 179 and 240).\<close>

fun loading :: "'n tool_call \<Rightarrow> 'n node" where
  "loading (Call_get_movie_info imdbId) = El ''div'' [] [Text ''Loading movie information...'']"
| "loading (Call_get_movie_cast imdbId) = El ''div'' [] [Text ''Loading movie cast...'']"
| "loading (Call_search_movie_title title) = El ''div'' [] [Text ''Searching for movies...'']"
| "loading (Call_filter_movies params) = El ''div'' [] [Text ''Filtering movies...'']"

fun not_found :: "'n tool_call \<Rightarrow> 'n node" where
  "not_found (Call_get_movie_info imdbId) = El ''div'' [] [Text ''Movie not found!'']"
| "not_found (Call_get_movie_cast imdbId) = El ''div'' [] [Text ''Cast not found!'']"
| "not_found (Call_search_movie_title title) = El ''div'' [] [Text ''No movies found!'']"
| "not_found (Call_filter_movies params) =
     El ''div'' [] [Text ''No movies found with the specified criteria!'']"

text \<open>The one request a tool sends to the provider, and the provider's answer to it.\<close>

fun lookup_request :: "'n runtime \<Rightarrow> 'n tool_call \<Rightarrow> error + request" where
  "lookup_request rt (Call_get_movie_info imdbId) = Inr (get_movie_info_request rt imdbId)"
| "lookup_request rt (Call_get_movie_cast imdbId) = Inr (get_movie_cast_request rt imdbId)"
| "lookup_request rt (Call_search_movie_title title) = Inr (search_movie_title_request rt title)"
| "lookup_request rt (Call_filter_movies params) =
     and_then (filter_movies_query rt params) (\<lambda>query. Inr (filter_movies_request rt query))"

definition upstream_response :: "'n runtime \<Rightarrow> 'n tool_call \<Rightarrow> error + 'n response" where
  "upstream_response rt call = and_then (lookup_request rt call) (fetch rt)"

text \<open>The entries a run added to the conversation store.\<close>

definition appended :: "message list \<Rightarrow> history \<Rightarrow> message list" where
  "appended before h = drop (length before) (current h)"

text \<open>
  How a turn ends. It is completed when the completion service replied in text, or chose a
  tool whose lookup the provider answered with success and whose run raised no error. Its
  lookup failed when the provider answered the tool's request without success. Every other
  turn is aborted by an error: of the completion service, of the validation, of the network
  or of the tool's own code.
\<close>

datatype outcome = Completed | Lookup_failed | Aborted

definition turn_outcome :: "'n runtime \<Rightarrow> string \<Rightarrow> message list \<Rightarrow> outcome" where
  "turn_outcome rt message' aiState =
     (case completion rt (system_message # aiState @ [user_message message']) of
        Reply_text deltas \<Rightarrow> Completed
      | Reply_error \<Rightarrow> Aborted
      | Reply_tool t args \<Rightarrow>
          (case validate t args of
             None \<Rightarrow> Aborted
           | Some call \<Rightarrow>
               (case upstream_response rt call of
                  Inl e \<Rightarrow> Aborted
                | Inr response \<Rightarrow>
                    if \<not> ok response then Lookup_failed
                    else if failure (sendMessage rt message' aiState) = None then Completed
                    else Aborted)))"






text \<open>
  How the provider reads a query string (the parser of the
  \<^verbatim>\<open>application/x-www-form-urlencoded\<close> format): the string is cut at every \<^verbatim>\<open>&\<close>, empty
  pieces are skipped, a piece is cut at its first \<^verbatim>\<open>=\<close> into a name and a value, and in
  both a \<^verbatim>\<open>+\<close> is read as a space and \<^verbatim>\<open>%\<close> with two hexadecimal digits as the byte
  they write. This is what "the keys a query string contains" means below.
\<close>

definition hex_value :: "char \<Rightarrow> nat option" where
  "hex_value c =
     (let n = (of_char c :: nat)
      in if 48 \<le> n \<and> n \<le> 57 then Some (n - 48)
         else if 65 \<le> n \<and> n \<le> 70 then Some (n - 55)
         else if 97 \<le> n \<and> n \<le> 102 then Some (n - 87)
         else None)"

fun percent_decode :: "string \<Rightarrow> string" where
  "percent_decode (c # h # l # cs) =
     (if c = CHR ''%''
      then (case (hex_value h, hex_value l) of
              (Some a, Some b) \<Rightarrow> char_of (16 * a + b) # percent_decode cs
            | _ \<Rightarrow> c # percent_decode (h # l # cs))
      else c # percent_decode (h # l # cs))"
| "percent_decode (c # cs) = c # percent_decode cs"
| "percent_decode [] = []"

definition form_urldecode :: "string \<Rightarrow> string" where
  "form_urldecode s = percent_decode (map (\<lambda>c. if c = CHR ''+'' then CHR '' '' else c) s)"

definition parse_pair :: "string \<Rightarrow> string \<times> string" where
  "parse_pair seg =
     (form_urldecode (takeWhile (\<lambda>c. c \<noteq> CHR ''='') seg),
      form_urldecode (drop 1 (dropWhile (\<lambda>c. c \<noteq> CHR ''='') seg)))"

definition parse_query :: "string \<Rightarrow> (string \<times> string) list" where
  "parse_query q = map parse_pair (filter (\<lambda>seg. seg \<noteq> []) (js_split q ''&''))"

section \<open>Example environments\<close>

text \<open>
  In the examples a number is written as its decimal literal, so that the runtime's
  conversion of a number to text is the identity. The provider answers every request with
  the same response and the completion service every request with the same reply.
\<close>

definition example_runtime :: "string response \<Rightarrow> string oracle_reply \<Rightarrow> string runtime" where
  "example_runtime resp reply =
     \<lparr>RAPIDAPI_KEY = ''key'', number_to_string = (\<lambda>n. n), fetch = (\<lambda>req. Inr resp),
      completion = (\<lambda>messages. reply), now = 0\<rparr>"

text \<open>Two bodies for the movie with the identifier \<^verbatim>\<open>tt1375666\<close>: one names its fields as
  the fragment of \<^verbatim>\<open>get_movie_info\<close> reads them, the other as \<^verbatim>\<open>get_movie_cast\<close> does.\<close>

definition inception_lower :: "string jsval" where
  "inception_lower =
     JArr [JObj [(''title'', JStr ''Inception''),
                 (''overview'', JStr ''A thief who steals corporate secrets.''),
                 (''release_date'', JStr ''2010-07-15''),
                 (''vote_average'', JNum ''8.4'')]]"

definition inception_upper :: "string jsval" where
  "inception_upper =
     JArr [JObj [(''Title'', JStr ''Inception''),
                 (''Year'', JNum ''2010''),
                 (''Actors'', JStr ''Leonardo DiCaprio, Joseph Gordon-Levitt''),
                 (''imdbID'', JStr ''tt1375666'')]]"

definition imdb_args :: "string jsval" where
  "imdb_args = JObj [(''imdbId'', JStr ''tt1375666'')]"

definition title_args :: "string jsval" where
  "title_args = JObj [(''title'', JStr ''Inception'')]"

definition filter_args :: "string jsval" where
  "filter_args =
     JObj [(''Genre'', JStr ''action''), (''MinYear'', JNum ''2010''), (''MinRating'', JNum ''7'')]"


text \<open>An environment whose provider answers one address only: a request to \<open>u\<close> gets the
  response, a request to any other address is rejected.\<close>

definition routed_runtime :: "string \<Rightarrow> string response \<Rightarrow> string runtime" where
  "routed_runtime u resp =
     \<lparr>RAPIDAPI_KEY = ''key'', number_to_string = (\<lambda>n. n),
      fetch = (\<lambda>req. if url req = u then Inr resp else Inl FetchError),
      completion = (\<lambda>messages. Reply_error), now = 0\<rparr>"

section \<open>Basic facts about the model\<close>

lemmas history_ops = getMutableAIState_def history_get_def history_update_def history_done_def

lemmas generate_defs = get_movie_info_generate_def get_movie_cast_generate_def
  search_movie_title_generate_def filter_movies_generate_def

lemmas example_defs = example_runtime_def inception_lower_def inception_upper_def
  imdb_args_def title_args_def filter_args_def

lemma map_items_total:
  "(\<And>x. x \<in> set xs \<Longrightarrow> \<exists>y. f x = Inr y) \<Longrightarrow> \<exists>ys. map_items f xs = Inr ys"
proof (induction xs)
  case Nil
  then show ?case by simp
next
  case (Cons x xs)
  then obtain y ys where "f x = Inr y" "map_items f xs = Inr ys"
    by (meson list.set_intros)
  then show ?case by (simp add: and_then_def)
qed

text \<open>A tool leaves the store as it found it or closes the turn with one summary.\<close>

lemma generate_after:
  "after (generate rt call h) = h \<or>
   (\<exists>t s. after (generate rt call h) =
      history_done h (current h @ [assistant_message (Some t) s]))"
  by (cases call) (auto simp: generate_defs history_ops Let_def split: sum.splits option.splits)

lemma streamUI_store:
  "store (streamUI rt msgs h) = h \<or>
   (\<exists>t s. store (streamUI rt msgs h) = history_done h (current h @ [assistant_message t s]))"
  using generate_after[of rt _ h]
  by (auto simp: streamUI_def text_handler_def history_ops Let_def
      split: oracle_reply.splits option.splits)

lemma sendMessage_unfold:
  "sendMessage rt msg aiState =
     (let h = \<lparr>current = aiState @ [user_message msg], sealed = False\<rparr>;
          r = streamUI rt (system_message # aiState @ [user_message msg]) h
      in \<lparr>sent = system_message # aiState @ [user_message msg], reply_id = now rt,
          reply_role = Assistant, display = rendered r, failure = thrown r, state = store r\<rparr>)"
  by (simp add: sendMessage_def history_ops Let_def)

lemma sendMessage_sent:
  "sent (sendMessage rt msg aiState) = system_message # aiState @ [user_message msg]"
  by (simp add: sendMessage_unfold Let_def)

lemma sendMessage_store:
  "current (state (sendMessage rt msg aiState)) = aiState @ [user_message msg] \<or>
   (\<exists>t s. current (state (sendMessage rt msg aiState)) =
      aiState @ [user_message msg, assistant_message t s])"
proof -
  let ?h = "\<lparr>current = aiState @ [user_message msg], sealed = False\<rparr>"
  let ?r = "streamUI rt (system_message # aiState @ [user_message msg]) ?h"
  have eq: "state (sendMessage rt msg aiState) = store ?r"
    by (simp add: sendMessage_unfold Let_def)
  from streamUI_store[of rt "system_message # aiState @ [user_message msg]" ?h]
  show ?thesis
  proof
    assume "store ?r = ?h"
    then show ?thesis by (simp add: eq)
  next
    assume "\<exists>t s. store ?r = history_done ?h (current ?h @ [assistant_message t s])"
    then obtain t s where "store ?r = history_done ?h (current ?h @ [assistant_message t s])"
      by blast
    then have "current (state (sendMessage rt msg aiState)) =
        aiState @ [user_message msg, assistant_message t s]"
      by (simp add: eq history_ops)
    then show ?thesis by blast
  qed
qed



lemma generate_lookup_failed:
  assumes "upstream_response rt call = Inr resp" and "\<not> ok resp"
  shows "generate rt call h =
    \<lparr>yields = [loading call], returned = Inr (not_found call), after = h\<rparr>"
  using assms
  by (cases call)
     (auto simp: generate_defs upstream_response_def and_then_def Let_def split: sum.splits)


lemma turn_lookup_failed:
  assumes "completion rt (system_message # aiState @ [user_message msg]) = Reply_tool t args"
    and "validate t args = Some call"
    and "upstream_response rt call = Inr resp" and "\<not> ok resp"
  shows "sendMessage rt msg aiState =
    \<lparr>sent = system_message # aiState @ [user_message msg], reply_id = now rt,
     reply_role = Assistant, display = [initial, loading call, not_found call], failure = None,
     state = \<lparr>current = aiState @ [user_message msg], sealed = False\<rparr>\<rparr>"
  using assms generate_lookup_failed[OF assms(3,4)]
  by (simp add: sendMessage_unfold streamUI_def renderables_def raised_def Let_def)

section \<open>The length of the conversation store\<close>



lemmas eval_defs = turn_outcome_def sendMessage_unfold streamUI_def zod_parse_string_field_def
  filter_movies_parameters_def upstream_response_def and_then_def generate_defs
  get_movie_info_request_def get_movie_cast_request_def search_movie_title_request_def
  filter_movies_request_def filter_movies_query_def URLSearchParams_def params_toString_def
  api_request_def get_movie_info_summary_def get_movie_info_view_def get_movie_cast_cast_def
  get_movie_cast_summary_def get_movie_cast_view_def search_movie_title_view_def
  filter_movies_view_def index0_def get_prop_def call_split_def call_map_def js_split_def
  history_ops renderables_def raised_def text_handler_def appended_def held_after_def Let_def
  example_defs




section \<open>Failed lookups\<close>

text \<open>
  C2. Whatever the tool, when the provider answers the tool's request without success, the
  tool returns its "not found" renderable and leaves the conversation store as it found it;
  the turn ends without an error, shows "not found" last, and its store is the previous one
  with the user entry only: no summary is committed.
\<close>

theorem failed_lookup_commits_nothing:
  assumes "completion rt (system_message # aiState @ [user_message msg]) = Reply_tool t args"
    and "validate t args = Some call"
    and "upstream_response rt call = Inr resp" and "\<not> ok resp"
  shows "returned (generate rt call h) = Inr (not_found call) \<and>
    after (generate rt call h) = h \<and>
    last (display (sendMessage rt msg aiState)) = not_found call \<and>
    failure (sendMessage rt msg aiState) = None \<and>
    current (state (sendMessage rt msg aiState)) = aiState @ [user_message msg]"
  using turn_lookup_failed[OF assms] generate_lookup_failed[OF assms(3,4), of h] by simp

theorem failed_lookup_commits_nothing_witness:
  "last (display (sendMessage
      (example_runtime \<lparr>ok = False, json = None\<rparr> (Reply_tool Search_movie_title title_args))
      ''find movies called Inception'' [])) = El ''div'' [] [Text ''No movies found!''] \<and>
   current (state (sendMessage
      (example_runtime \<lparr>ok = False, json = None\<rparr> (Reply_tool Search_movie_title title_args))
      ''find movies called Inception'' [])) = [user_message ''find movies called Inception'']"
proof -
  let ?rt = "example_runtime \<lparr>ok = False, json = None\<rparr>
      (Reply_tool Search_movie_title title_args)"
  have 1: "completion ?rt (system_message # [] @ [user_message ''find movies called Inception''])
      = Reply_tool Search_movie_title title_args"
    by (simp add: example_defs)
  have 2: "validate Search_movie_title title_args = Some (Call_search_movie_title ''Inception'')"
    by (simp add: eval_defs)
  have 3: "upstream_response ?rt (Call_search_movie_title ''Inception'') =
      Inr \<lparr>ok = False, json = None\<rparr>"
    by (simp add: eval_defs)
  have 4: "\<not> ok \<lparr>ok = False, json = (None :: string jsval option)\<rparr>"
    by simp
  from failed_lookup_commits_nothing[OF 1 2 3 4] show ?thesis by simp
qed

section \<open>What the completion service receives\<close>





section \<open>The entry point validates nothing\<close>

text \<open>
  C10. For every string, the empty one included, \<^verbatim>\<open>sendMessage\<close> sends to the
  completion service the system instruction, the previous store and the user entry with
  that string, and the store after the turn begins with the previous store followed by that
  user entry: the text is not inspected before it is appended and sent.
\<close>

theorem sendMessage_accepts_any_text:
  "sent (sendMessage rt msg aiState) = system_message # aiState @ [user_message msg] \<and>
   take (Suc (length aiState)) (current (state (sendMessage rt msg aiState))) =
     aiState @ [user_message msg] \<and>
   user_message msg =
     \<lparr>ident = None, name = None, role = User, content = msg, toolInvocations = None\<rparr>"
  using sendMessage_store[of rt msg aiState] by (auto simp: sendMessage_sent user_message_def)

theorem sendMessage_accepts_any_text_witness:
  "sent (sendMessage
      (example_runtime \<lparr>ok = False, json = None\<rparr> (Reply_text [''Hello'']))
      [] []) = [system_message, user_message []] \<and>
   take 1 (current (state (sendMessage
      (example_runtime \<lparr>ok = False, json = None\<rparr> (Reply_text [''Hello'']))
      [] []))) =
     [\<lparr>ident = None, name = None, role = User, content = [], toolInvocations = None\<rparr>]"
  using sendMessage_accepts_any_text[of
      "example_runtime \<lparr>ok = False, json = None\<rparr> (Reply_text [''Hello''])" "[]" "[]"]
  by simp

section \<open>The renderables of a tool\<close>


text \<open>
  The same happens on a successful response whose body is the empty list:
  \<^verbatim>\<open>movie[0]\<close> is \<^verbatim>\<open>undefined\<close> and reading its \<^verbatim>\<open>Title\<close> throws.
\<close>

lemma get_movie_info_empty_list:
  "renderables (generate
      (example_runtime \<lparr>ok = True, json = Some (JArr [])\<rparr> Reply_error)
      (Call_get_movie_info ''tt1375666'') (getMutableAIState []))
   = [El ''div'' [] [Text ''Loading movie information...'']] \<and>
   raised (generate
      (example_runtime \<lparr>ok = True, json = Some (JArr [])\<rparr> Reply_error)
      (Call_get_movie_info ''tt1375666'') (getMutableAIState [])) = Some TypeError"
  by (simp add: eval_defs)













section \<open>Determinism of the tools\<close>

lemma get_movie_info_deterministic:
  assumes "number_to_string rt1 = number_to_string rt2"
    and "fetch rt1 (get_movie_info_request rt1 i) = fetch rt2 (get_movie_info_request rt2 i)"
  shows "returned (get_movie_info_generate rt1 i h1) =
      returned (get_movie_info_generate rt2 i h2) \<and>
    appended (current h1) (after (get_movie_info_generate rt1 i h1)) =
    appended (current h2) (after (get_movie_info_generate rt2 i h2))"
  using assms
  by (auto simp: get_movie_info_generate_def get_movie_info_summary_def appended_def history_ops
      Let_def split: sum.splits option.splits)

lemma get_movie_cast_deterministic:
  assumes "number_to_string rt1 = number_to_string rt2"
    and "fetch rt1 (get_movie_cast_request rt1 i) = fetch rt2 (get_movie_cast_request rt2 i)"
  shows "returned (get_movie_cast_generate rt1 i h1) =
      returned (get_movie_cast_generate rt2 i h2) \<and>
    appended (current h1) (after (get_movie_cast_generate rt1 i h1)) =
    appended (current h2) (after (get_movie_cast_generate rt2 i h2))"
  using assms
  by (auto simp: get_movie_cast_generate_def get_movie_cast_summary_def appended_def history_ops
      Let_def split: sum.splits option.splits)

lemma search_movie_title_deterministic:
  assumes "fetch rt1 (search_movie_title_request rt1 i) =
      fetch rt2 (search_movie_title_request rt2 i)"
  shows "returned (search_movie_title_generate rt1 i h1) =
      returned (search_movie_title_generate rt2 i h2) \<and>
    appended (current h1) (after (search_movie_title_generate rt1 i h1)) =
    appended (current h2) (after (search_movie_title_generate rt2 i h2))"
  using assms
  by (auto simp: search_movie_title_generate_def appended_def history_ops
      Let_def split: sum.splits option.splits)

lemma filter_movies_deterministic:
  assumes "number_to_string rt1 = number_to_string rt2"
    and "upstream_response rt1 (Call_filter_movies p) =
      upstream_response rt2 (Call_filter_movies p)"
  shows "returned (filter_movies_generate rt1 p h1) =
      returned (filter_movies_generate rt2 p h2) \<and>
    appended (current h1) (after (filter_movies_generate rt1 p h1)) =
    appended (current h2) (after (filter_movies_generate rt2 p h2))"
  using assms
  by (auto simp: filter_movies_generate_def filter_movies_query_def upstream_response_def
      and_then_def appended_def history_ops Let_def split: sum.splits option.splits)

text \<open>
  C8. Two runs of a tool with the same parameters, in environments that convert numbers to
  text alike and in which the provider gives the same answer to the tool's request, return
  the same renderable (or raise the same error) and add the same entries to the store,
  whatever the store held before and whatever else differs between the environments.
\<close>

theorem tool_deterministic:
  assumes "number_to_string rt1 = number_to_string rt2"
    and "upstream_response rt1 call = upstream_response rt2 call"
  shows "returned (generate rt1 call h1) = returned (generate rt2 call h2) \<and>
    appended (current h1) (after (generate rt1 call h1)) =
    appended (current h2) (after (generate rt2 call h2))"
proof (cases call)
  case (Call_get_movie_info i)
  with assms show ?thesis
    using get_movie_info_deterministic[of rt1 rt2 i h1 h2]
    by (simp add: upstream_response_def and_then_def)
next
  case (Call_get_movie_cast i)
  with assms show ?thesis
    using get_movie_cast_deterministic[of rt1 rt2 i h1 h2]
    by (simp add: upstream_response_def and_then_def)
next
  case (Call_search_movie_title i)
  with assms show ?thesis
    using search_movie_title_deterministic[of rt1 i rt2 h1 h2]
    by (simp add: upstream_response_def and_then_def)
next
  case (Call_filter_movies p)
  with assms show ?thesis
    using filter_movies_deterministic[of rt1 rt2 p h1 h2] by simp
qed

theorem tool_deterministic_witness:
  "returned (generate
      (example_runtime \<lparr>ok = True, json = Some inception_upper\<rparr> Reply_error)
      (Call_get_movie_cast ''tt1375666'') (getMutableAIState [])) =
   returned (generate
      (example_runtime \<lparr>ok = True, json = Some inception_upper\<rparr> (Reply_text [''Hello'']))
      (Call_get_movie_cast ''tt1375666'')
      (getMutableAIState [user_message ''hi'', assistant_message None ''Hello''])) \<and>
   appended [] (after (generate
      (example_runtime \<lparr>ok = True, json = Some inception_upper\<rparr> Reply_error)
      (Call_get_movie_cast ''tt1375666'') (getMutableAIState []))) =
   appended [user_message ''hi'', assistant_message None ''Hello'']
     (after (generate
      (example_runtime \<lparr>ok = True, json = Some inception_upper\<rparr> (Reply_text [''Hello'']))
      (Call_get_movie_cast ''tt1375666'')
      (getMutableAIState [user_message ''hi'', assistant_message None ''Hello''])))"
proof -
  let ?rt1 = "example_runtime \<lparr>ok = True, json = Some inception_upper\<rparr> Reply_error"
  let ?rt2 = "example_runtime \<lparr>ok = True, json = Some inception_upper\<rparr> (Reply_text [''Hello''])"
  let ?c = "Call_get_movie_cast ''tt1375666'' :: string tool_call"
  have 1: "number_to_string ?rt1 = number_to_string ?rt2"
    by (simp add: example_defs)
  have 2: "upstream_response ?rt1 ?c = upstream_response ?rt2 ?c"
    by (simp add: eval_defs)
  from tool_deterministic[OF 1 2, of "getMutableAIState []"
      "getMutableAIState [user_message ''hi'', assistant_message None ''Hello'']"]
  show ?thesis by (simp add: history_ops)
qed

section \<open>The summary of the filter\<close>




section \<open>Splitting and joining\<close>

lemma split_at_not_Nil: "split_at sep cur s \<noteq> []"
  by (induction sep cur s rule: split_at.induct) auto

lemma js_join_Cons: "xs \<noteq> [] \<Longrightarrow> js_join (x # xs) sep = x @ sep @ js_join xs sep"
  by (cases xs) simp_all

text \<open>Joining the pieces with the separator gives the string back.\<close>

lemma join_split_at: "js_join (split_at sep cur s) sep = cur @ s"
proof (induction sep cur s rule: split_at.induct)
  case (1 sep cur)
  show ?case by simp
next
  case (2 sep cur c cs)
  show ?case
  proof (cases "sep \<noteq> [] \<and> take (length sep) (c # cs) = sep")
    case True
    then have "js_join (split_at sep cur (c # cs)) sep =
        cur @ sep @ js_join (split_at sep [] (drop (length sep) (c # cs))) sep"
      using split_at_not_Nil[of sep "[]" "drop (length sep) (c # cs)"]
      by (simp add: js_join_Cons del: drop_Suc_Cons take_Suc_Cons)
    also have "\<dots> = cur @ sep @ drop (length sep) (c # cs)"
      using 2(1)[OF True] by simp
    also have "\<dots> = cur @ take (length sep) (c # cs) @ drop (length sep) (c # cs)"
      using True by simp
    finally show ?thesis by (simp only: append_take_drop_id)
  next
    case False
    then show ?thesis using 2(2)[OF False] by auto
  qed
qed

lemma join_split: "js_join (js_split s sep) sep = s"
proof (cases "sep = []")
  case True
  have "js_join (map (\<lambda>c. [c]) s) [] = s" for s :: string
    by (induction s rule: induct_list012) simp_all
  with True show ?thesis by (simp add: js_split_def)
next
  case False
  then show ?thesis by (simp add: js_split_def join_split_at)
qed

text \<open>
  No piece contains the separator. The invariant of the scan: the separator does not start
  anywhere inside the piece read so far.
\<close>

lemma split_at_pieces:
  assumes "sep \<noteq> []"
    and "\<And>u v. cur = u @ v \<Longrightarrow> v \<noteq> [] \<Longrightarrow> take (length sep) (v @ s) \<noteq> sep"
    and "n \<in> set (split_at sep cur s)"
  shows "\<not> (\<exists>u v. n = u @ sep @ v)"
  using assms
proof (induction sep cur s rule: split_at.induct)
  case (1 sep cur)
  show ?case
  proof
    assume "\<exists>u v. n = u @ sep @ v"
    then obtain u v where "n = u @ sep @ v" by blast
    with 1(3) have "cur = u @ (sep @ v)" by simp
    from 1(2)[OF this] 1(1) show False by simp
  qed
next
  case (2 sep cur c cs)
  show ?case
  proof (cases "sep \<noteq> [] \<and> take (length sep) (c # cs) = sep")
    case True
    from 2(5) True have "n = cur \<or> n \<in> set (split_at sep [] (drop (length sep) (c # cs)))"
      by (simp del: drop_Suc_Cons take_Suc_Cons)
    then show ?thesis
    proof
      assume n: "n = cur"
      show ?thesis
      proof
        assume "\<exists>u v. n = u @ sep @ v"
        then obtain u v where "cur = u @ (sep @ v)" using n by auto
        from 2(4)[OF this] 2(3) show False by simp
      qed
    next
      assume "n \<in> set (split_at sep [] (drop (length sep) (c # cs)))"
      from 2(1)[OF True 2(3) _ this] show ?thesis by simp
    qed
  next
    case False
    with 2(5) have mem: "n \<in> set (split_at sep (cur @ [c]) cs)" by auto
    have inv: "take (length sep) (v @ cs) \<noteq> sep" if "cur @ [c] = u @ v" and "v \<noteq> []" for u v
    proof (cases "v = [c]")
      case True
      with False 2(3) show ?thesis by simp
    next
      case False
      with that obtain v' where v: "v = v' @ [c]" 
        by (metis append_butlast_last_id last_appendR last_snoc)
      with False have "v' \<noteq> []" by auto
      moreover from that v have "cur = u @ v'" by auto
      ultimately have "take (length sep) (v' @ c # cs) \<noteq> sep" using 2(4) by blast
      with v show ?thesis by simp
    qed
    from 2(2)[OF False 2(3) inv mem] show ?thesis by simp
  qed
qed

lemma split_pieces_discrete:
  "sep \<noteq> [] \<Longrightarrow> n \<in> set (js_split s sep) \<Longrightarrow> \<not> (\<exists>u v. n = u @ sep @ v)"
  using split_at_pieces[of sep "[]" s n] by (simp add: js_split_def)

section \<open>The cast of a movie\<close>

lemma get_movie_cast_success:
  assumes "upstream_response rt (Call_get_movie_cast imdbId) = Inr resp" and "ok resp"
    and "json resp = Some movie" and "index0 movie = Inr m"
    and "get_prop m ''Actors'' = Inr (JStr actors)"
    and "get_prop m ''Title'' = Inr title"
    and "to_string (number_to_string rt) title = Inr s"
  shows "get_movie_cast_generate rt imdbId h =
    \<lparr>yields = [El ''div'' [] [Text ''Loading movie cast...'']],
     returned = Inr (El ''div'' []
         [El ''h2'' [] [Text ''Cast of '', Val title],
          El ''p'' [] [Text (js_join (js_split actors '', '') '', '')]]),
     after = history_done h
       (current h @ [assistant_message (Some Get_movie_cast) (''[Cast of '' @ s @ '']'')])\<rparr>"
  using assms
  by (simp add: get_movie_cast_generate_def get_movie_cast_cast_def get_movie_cast_summary_def
      get_movie_cast_view_def get_movie_cast_request_def call_split_def upstream_response_def
      and_then_def history_ops Let_def)

lemma js_join_concat:
  "xs \<noteq> [] \<Longrightarrow> js_join xs sep = hd xs @ concat (map (\<lambda>x. sep @ x) (tl xs))"
  by (induction xs sep rule: js_join.induct) simp_all

lemma js_split_not_Nil: "sep \<noteq> [] \<Longrightarrow> js_split s sep \<noteq> []"
  by (simp add: js_split_def split_at_not_Nil)

text \<open>
  C7. On a successful \<^verbatim>\<open>get_movie_cast\<close> run (the provider answers with success, the
  first record of the body has a string \<^verbatim>\<open>Actors\<close> and a title that converts to text),
  the code splits the actor string into a non-empty list of names such that no name
  contains the separator \<^verbatim>\<open>", "\<close> and the names, written one after the other with
  \<^verbatim>\<open>", "\<close> between them, are the whole actor string: no name is lost or cut. The
  paragraph of the returned element is exactly that text, the names joined with
  \<^verbatim>\<open>", "\<close>.
\<close>

theorem cast_split_and_joined:
  assumes "upstream_response rt (Call_get_movie_cast imdbId) = Inr resp" and "ok resp"
    and "json resp = Some movie" and "index0 movie = Inr m"
    and "get_prop m ''Actors'' = Inr (JStr actors)"
    and "get_prop m ''Title'' = Inr title"
    and "to_string (number_to_string rt) title = Inr s"
  shows "\<exists>names. get_movie_cast_cast movie = Inr names \<and> names \<noteq> [] \<and>
    (\<forall>n \<in> set names. \<not> (\<exists>u v. n = u @ '', '' @ v)) \<and>
    hd names @ concat (map (\<lambda>n. '', '' @ n) (tl names)) = actors \<and>
    returned (generate rt (Call_get_movie_cast imdbId) h) =
      Inr (El ''div'' []
        [El ''h2'' [] [Text ''Cast of '', Val title],
         El ''p'' [] [Text (hd names @ concat (map (\<lambda>n. '', '' @ n) (tl names)))]])"
proof -
  let ?names = "js_split actors '', ''"
  have cast: "get_movie_cast_cast movie = Inr ?names"
    using assms(4,5) by (simp add: get_movie_cast_cast_def call_split_def and_then_def)
  have ne: "?names \<noteq> []"
    by (simp add: js_split_not_Nil)
  have discrete: "\<forall>n \<in> set ?names. \<not> (\<exists>u v. n = u @ '', '' @ v)"
    using split_pieces_discrete[of "'', ''" _ actors] by blast
  have whole: "hd ?names @ concat (map (\<lambda>n. '', '' @ n) (tl ?names)) = actors"
    using js_join_concat[OF ne, of "'', ''"] join_split[of actors "'', ''"] by simp
  have "returned (generate rt (Call_get_movie_cast imdbId) h) =
      Inr (El ''div'' []
        [El ''h2'' [] [Text ''Cast of '', Val title],
         El ''p'' [] [Text (hd ?names @ concat (map (\<lambda>n. '', '' @ n) (tl ?names)))]])"
    using get_movie_cast_success[OF assms, of h] js_join_concat[OF ne, of "'', ''"] by simp
  with cast ne discrete whole show ?thesis by blast
qed

theorem cast_split_and_joined_witness:
  "get_movie_cast_cast inception_upper = Inr [''Leonardo DiCaprio'', ''Joseph Gordon-Levitt''] \<and>
   returned (generate
      (example_runtime \<lparr>ok = True, json = Some inception_upper\<rparr> Reply_error)
      (Call_get_movie_cast ''tt1375666'') (getMutableAIState [])) =
     Inr (El ''div'' []
        [El ''h2'' [] [Text ''Cast of '', Text ''Inception''],
         El ''p'' [] [Text ''Leonardo DiCaprio, Joseph Gordon-Levitt'']])"
proof -
  let ?rt = "example_runtime \<lparr>ok = True, json = Some inception_upper\<rparr> Reply_error"
  let ?m = "JObj [(''Title'', JStr ''Inception''), (''Year'', JNum ''2010''),
      (''Actors'', JStr ''Leonardo DiCaprio, Joseph Gordon-Levitt''),
      (''imdbID'', JStr ''tt1375666'')] :: string jsval"
  have 1: "upstream_response ?rt (Call_get_movie_cast ''tt1375666'') =
      Inr \<lparr>ok = True, json = Some inception_upper\<rparr>"
    by (simp add: eval_defs)
  have 2: "ok \<lparr>ok = True, json = Some inception_upper\<rparr>" by simp
  have 3: "json \<lparr>ok = True, json = Some inception_upper\<rparr> = Some inception_upper" by simp
  have 4: "index0 inception_upper = Inr ?m" by (simp add: index0_def inception_upper_def)
  have 5: "get_prop ?m ''Actors'' = Inr (JStr ''Leonardo DiCaprio, Joseph Gordon-Levitt'')"
    by (simp add: get_prop_def)
  have 6: "get_prop ?m ''Title'' = Inr (JStr ''Inception'')" by (simp add: get_prop_def)
  have 7: "to_string (number_to_string ?rt) (JStr ''Inception'') = Inr ''Inception''" by simp
  have c: "get_movie_cast_cast inception_upper =
      Inr [''Leonardo DiCaprio'', ''Joseph Gordon-Levitt'']"
    by (simp add: eval_defs)
  from cast_split_and_joined[OF 1 2 3 4 5 6 7, of "getMutableAIState []"]
  obtain names where "get_movie_cast_cast inception_upper = Inr names"
    and r: "returned (generate ?rt (Call_get_movie_cast ''tt1375666'') (getMutableAIState [])) =
      Inr (El ''div'' []
        [El ''h2'' [] [Text ''Cast of '', Text ''Inception''],
         El ''p'' [] [Text (hd names @ concat (map (\<lambda>n. '', '' @ n) (tl names)))]])"
    by blast
  with c have "names = [''Leonardo DiCaprio'', ''Joseph Gordon-Levitt'']" by simp
  with r c show ?thesis by simp
qed

section \<open>The summary of the movie information\<close>

text \<open>
  C3. \<^verbatim>\<open>get_movie_info\<close> takes the title of its summary from the field \<^verbatim>\<open>Title\<close>
  (line 98) and the title it shows from the field \<^verbatim>\<open>title\<close> (line 104). For the record
  titled "Inception" under \<^verbatim>\<open>title\<close>, next to \<^verbatim>\<open>overview\<close>, \<^verbatim>\<open>release_date\<close> and
  \<^verbatim>\<open>vote_average\<close>, the fragment shows the four fields and the summary committed is
  \<^verbatim>\<open>[Information about undefined]\<close>. For the record titled under \<^verbatim>\<open>Title\<close> the
  summary names the movie and the heading of the fragment is \<^verbatim>\<open>undefined\<close>.
\<close>

theorem get_movie_info_title_fields_differ:
  "state (sendMessage
      (example_runtime \<lparr>ok = True, json = Some inception_lower\<rparr>
         (Reply_tool Get_movie_info imdb_args))
      ''tell me about tt1375666'' []) =
     \<lparr>current = [user_message ''tell me about tt1375666'',
        assistant_message (Some Get_movie_info) ''[Information about undefined]''],
      sealed = True\<rparr> \<and>
   last (display (sendMessage
      (example_runtime \<lparr>ok = True, json = Some inception_lower\<rparr>
         (Reply_tool Get_movie_info imdb_args))
      ''tell me about tt1375666'' [])) =
     Fragment
       [El ''h2'' [] [Text ''Inception''],
        El ''p'' [] [Text ''A thief who steals corporate secrets.''],
        El ''p'' [] [Text ''Release Date: '', Text ''2010-07-15''],
        El ''p'' [] [Text ''Rating: '', Val (JNum ''8.4'')]] \<and>
   state (sendMessage
      (example_runtime \<lparr>ok = True, json = Some inception_upper\<rparr>
         (Reply_tool Get_movie_info imdb_args))
      ''tell me about tt1375666'' []) =
     \<lparr>current = [user_message ''tell me about tt1375666'',
        assistant_message (Some Get_movie_info) ''[Information about Inception]''],
      sealed = True\<rparr> \<and>
   last (display (sendMessage
      (example_runtime \<lparr>ok = True, json = Some inception_upper\<rparr>
         (Reply_tool Get_movie_info imdb_args))
      ''tell me about tt1375666'' [])) =
     Fragment
       [El ''h2'' [] [Val JUndefined],
        El ''p'' [] [Val JUndefined],
        El ''p'' [] [Text ''Release Date: '', Val JUndefined],
        El ''p'' [] [Text ''Rating: '', Val JUndefined]]"
  by (simp add: eval_defs)

section \<open>The query string of the filter, read back\<close>

lemma hex_value_digit: "n < 16 \<Longrightarrow> hex_value (hex_digit n) = Some n"
proof -
  assume "n < 16"
  then have "n \<in> {0,1,2,3,4,5,6,7,8,9,10,11,12,13,14,15}" by simp arith
  then show ?thesis by (auto simp: hex_digit_def hex_value_def)
qed

lemma hex_digit_plain:
  "hex_digit n \<noteq> CHR ''+'' \<and> hex_digit n \<noteq> CHR ''%'' \<and> hex_digit n \<noteq> CHR ''&'' \<and>
   hex_digit n \<noteq> CHR ''=''"
proof -
  have "n mod 16 \<in> {0,1,2,3,4,5,6,7,8,9,10,11,12,13,14,15}"
    using mod_less_divisor[of 16 n] by simp arith
  then show ?thesis by (auto simp: hex_digit_def)
qed

lemma unreserved_plain:
  "unreserved c \<Longrightarrow> c \<noteq> CHR ''+'' \<and> c \<noteq> CHR ''%'' \<and> c \<noteq> CHR ''&'' \<and> c \<noteq> CHR ''=''"
  by (auto simp: unreserved_def)

lemma percent_decode_plain:
  "c \<noteq> CHR ''%'' \<Longrightarrow> percent_decode (c # cs) = c # percent_decode cs"
  by (cases "(c # cs)" rule: percent_decode.cases) auto

lemma decode_encode_byte:
  "percent_decode (map (\<lambda>c. if c = CHR ''+'' then CHR '' '' else c) (encode_byte c) @ r) =
   c # percent_decode r"
proof -
  have lt: "(of_char c :: nat) div 16 < 16" "(of_char c :: nat) mod 16 < 16"
    using nat_of_char_less_256[of c] by arith+
  show ?thesis
    using unreserved_plain[of c]
    by (auto simp: encode_byte_def percent_decode_plain hex_digit_plain
        hex_value_digit[OF lt(1)] hex_value_digit[OF lt(2)])
qed

lemma form_urldecode_encode: "form_urldecode (form_urlencode s) = s"
proof -
  have "percent_decode
      (map (\<lambda>c. if c = CHR ''+'' then CHR '' '' else c) (concat (map encode_byte s))) = s"
    by (induction s) (simp_all add: decode_encode_byte)
  then show ?thesis by (simp add: form_urldecode_def form_urlencode_def)
qed

lemma encode_byte_chars:
  "x \<in> set (encode_byte c) \<Longrightarrow> x \<noteq> CHR ''&'' \<and> x \<noteq> CHR ''=''"
  using unreserved_plain[of c] hex_digit_plain
  by (auto simp: encode_byte_def split: if_splits)

lemma form_urlencode_chars:
  "x \<in> set (form_urlencode s) \<Longrightarrow> x \<noteq> CHR ''&'' \<and> x \<noteq> CHR ''=''"
  using encode_byte_chars by (auto simp: form_urlencode_def)

lemma parse_pair_encoded:
  "parse_pair (form_urlencode k @ CHR ''='' # form_urlencode v) = (k, v)"
proof -
  have k: "\<And>x. x \<in> set (form_urlencode k) \<Longrightarrow> x \<noteq> CHR ''=''"
    using form_urlencode_chars by blast
  have "takeWhile (\<lambda>c. c \<noteq> CHR ''='') (form_urlencode k @ CHR ''='' # form_urlencode v) =
      form_urlencode k"
    using k by (simp add: takeWhile_append2)
  moreover have "dropWhile (\<lambda>c. c \<noteq> CHR ''='') (form_urlencode k @ CHR ''='' # form_urlencode v) =
      CHR ''='' # form_urlencode v"
    using k by (simp add: dropWhile_append2)
  ultimately show ?thesis by (simp add: parse_pair_def form_urldecode_encode)
qed

text \<open>Cutting at \<^verbatim>\<open>&\<close> what was joined with \<^verbatim>\<open>&\<close>.\<close>

lemma split_at_amp_skip:
  "CHR ''&'' \<notin> set x \<Longrightarrow> split_at ''&'' cur (x @ r) = split_at ''&'' (cur @ x) r"
  by (induction x arbitrary: cur) auto

lemma split_at_amp_join:
  "\<forall>x \<in> set (x # xs). CHR ''&'' \<notin> set x \<Longrightarrow>
   split_at ''&'' cur (js_join (x # xs) ''&'') = (cur @ x) # xs"
proof (induction xs arbitrary: x cur)
  case Nil
  then show ?case using split_at_amp_skip[of x cur "[]"] by simp
next
  case (Cons y ys)
  then have "split_at ''&'' cur (js_join (x # y # ys) ''&'') =
      split_at ''&'' (cur @ x) (CHR ''&'' # js_join (y # ys) ''&'')"
    using split_at_amp_skip[of x cur "CHR ''&'' # js_join (y # ys) ''&''"] by simp
  also have "\<dots> = (cur @ x) # split_at ''&'' [] (js_join (y # ys) ''&'')" by simp
  also have "\<dots> = (cur @ x) # y # ys" using Cons.IH[of y "[]"] Cons.prems by simp
  finally show ?case .
qed

text \<open>Reading back a serialised list of pairs gives the list.\<close>

lemma parse_query_toString: "parse_query (params_toString ps) = ps"
proof (cases ps)
  case Nil
  then show ?thesis by (simp add: parse_query_def params_toString_def js_split_def)
next
  case (Cons p ps')
  let ?enc = "\<lambda>(k, v). form_urlencode k @ ''='' @ form_urlencode v"
  have no_amp: "\<forall>x \<in> set (map ?enc ps). CHR ''&'' \<notin> set x"
    using form_urlencode_chars by (auto simp: split_def)
  have nonempty: "\<forall>x \<in> set (map ?enc ps). x \<noteq> []"
    by (auto simp: split_def)
  from Cons no_amp have "js_split (params_toString ps) ''&'' = map ?enc ps"
    using split_at_amp_join[of "?enc p" "map ?enc ps'" "[]"]
    by (simp add: params_toString_def js_split_def)
  moreover from nonempty have "filter (\<lambda>seg. seg \<noteq> []) (map ?enc ps) = map ?enc ps"
    by (simp add: filter_id_conv)
  moreover have "map parse_pair (map ?enc ps) = ps"
    by (induction ps) (auto simp: parse_pair_encoded)
  ultimately show ?thesis by (simp add: parse_query_def)
qed

text \<open>The pairs of \<^verbatim>\<open>URLSearchParams\<close> carry the keys of the object, in its order.\<close>

lemma map_items_keys:
  "map_items (\<lambda>(k, v). and_then (g v) (\<lambda>s. Inr (k, s))) xs = Inr ys \<Longrightarrow>
   map fst ys = map fst xs"
  by (induction xs arbitrary: ys) (auto simp: and_then_def split: sum.splits)

lemma URLSearchParams_keys:
  "URLSearchParams nstr params = Inr ps \<Longrightarrow> map fst ps = map fst params"
  unfolding URLSearchParams_def by (rule map_items_keys)

text \<open>A validated bag holds strings, numbers and \<^verbatim>\<open>undefined\<close> only, under keys of the
  schema, and its conversion to text cannot throw.\<close>

lemma zod_parse_optional_values:
  "zod_parse_optional schema data = Some ps \<Longrightarrow> (k, v) \<in> set ps \<Longrightarrow>
   (k \<in> fst ` set schema \<and> map_of data k = Some v \<and>
    (v = JUndefined \<or> (\<exists>s. v = JStr s) \<or> (\<exists>n. v = JNum n)))"
proof (induction schema data arbitrary: ps rule: zod_parse_optional.induct)
  case (1 data)
  then show ?case by simp
next
  case (2 k' t schema data)
  show ?case
  proof (cases "map_of data k'")
    case None
    with 2 show ?thesis by auto
  next
    case (Some v')
    with 2(3) obtain rest where ok: "v' = JUndefined \<or> zod_accepts t v'"
      and rest: "zod_parse_optional schema data = Some rest" and ps: "ps = (k', v') # rest"
      by (auto split: if_splits)
    from ok have shape: "v' = JUndefined \<or> (\<exists>s. v' = JStr s) \<or> (\<exists>n. v' = JNum n)"
      by (cases t; cases v') auto
    from 2(4) ps have "(k, v) = (k', v') \<or> (k, v) \<in> set rest" by auto
    then show ?thesis
    proof
      assume "(k, v) = (k', v')"
      with Some shape show ?thesis by auto
    next
      assume "(k, v) \<in> set rest"
      from 2(2)[OF Some ok rest this] show ?thesis by auto
    qed
  qed
qed

lemma validated_URLSearchParams:
  assumes "zod_parse_optional schema data = Some params"
  shows "\<exists>ps. URLSearchParams nstr params = Inr ps"
  unfolding URLSearchParams_def
proof (rule map_items_total)
  fix x assume x: "x \<in> set params"
  obtain k v where kv: "x = (k, v)" by (cases x)
  from zod_parse_optional_values[OF assms] x kv
  have "v = JUndefined \<or> (\<exists>s. v = JStr s) \<or> (\<exists>n. v = JNum n)" by blast
  then have "\<exists>s. to_string nstr v = Inr s" by auto
  with kv show "\<exists>y. (case x of (k, v) \<Rightarrow> and_then (to_string nstr v) (\<lambda>s. Inr (k, s))) = Inr y"
    by (auto simp: and_then_def)
qed

text \<open>
  The run of \<^verbatim>\<open>filter_movies\<close> once its query is built: it fetches the \<^verbatim>\<open>Filter\<close>
  address followed by the query and is decided by what comes back.
\<close>

lemma filter_movies_run:
  assumes "filter_movies_query rt params = Inr query"
  shows "filter_movies_generate rt params h =
    (case fetch rt (api_request rt (''https://moviedatabase8.p.rapidapi.com/Filter?'' @ query)) of
       Inl e \<Rightarrow>
         \<lparr>yields = [El ''div'' [] [Text ''Filtering movies...'']], returned = Inl e, after = h\<rparr>
     | Inr response \<Rightarrow>
         if \<not> ok response
         then \<lparr>yields = [El ''div'' [] [Text ''Filtering movies...'']],
               returned = Inr (El ''div'' []
                 [Text ''No movies found with the specified criteria!'']),
               after = h\<rparr>
         else
           (case json response of
              None \<Rightarrow>
                \<lparr>yields = [El ''div'' [] [Text ''Filtering movies...'']],
                 returned = Inl SyntaxError, after = h\<rparr>
            | Some movies \<Rightarrow>
                \<lparr>yields = [El ''div'' [] [Text ''Filtering movies...'']],
                 returned = filter_movies_view movies,
                 after = history_done h
                   (current h @
                    [assistant_message (Some Filter_movies) ''[Movies matching criteria]''])\<rparr>))"
  using assms
  unfolding filter_movies_generate_def filter_movies_request_def history_get_def Let_def
  by simp

lemma filter_movies_query_runtime:
  "number_to_string rt' = number_to_string rt \<Longrightarrow>
   filter_movies_query rt' params = filter_movies_query rt params"
  by (simp add: filter_movies_query_def)

text \<open>
  C6. For every validated parameter bag of \<^verbatim>\<open>filter_movies\<close>, the query string is built
  without error and, read back as a query, holds one pair for each field of the bag, under
  the field's key and in the bag's order, and nothing else. The tool sends its request to
  the \<^verbatim>\<open>Filter\<close> address followed by that string: an error of that request is the error
  of the run, a response to it without success gives "not found", a successful response to
  it with a JSON body gives the list built from that body, and the run is the same in
  every environment with the same key and conversion of numbers in which the provider
  gives the same answer to that one request.
\<close>

theorem filter_query_keys:
  assumes "validate Filter_movies args = Some (Call_filter_movies params)"
  shows "\<exists>query. filter_movies_query rt params = Inr query \<and>
    URLSearchParams (number_to_string rt) params = Inr (parse_query query) \<and>
    map fst (parse_query query) = map fst params \<and>
    (\<forall>e. fetch rt (api_request rt (''https://moviedatabase8.p.rapidapi.com/Filter?'' @ query))
           = Inl e \<longrightarrow>
         returned (generate rt (Call_filter_movies params) h) = Inl e) \<and>
    (\<forall>resp. fetch rt (api_request rt (''https://moviedatabase8.p.rapidapi.com/Filter?'' @ query))
           = Inr resp \<and> \<not> ok resp \<longrightarrow>
         returned (generate rt (Call_filter_movies params) h) =
           Inr (not_found (Call_filter_movies params))) \<and>
    (\<forall>resp movies.
         fetch rt (api_request rt (''https://moviedatabase8.p.rapidapi.com/Filter?'' @ query))
           = Inr resp \<and> ok resp \<and> json resp = Some movies \<longrightarrow>
         returned (generate rt (Call_filter_movies params) h) = filter_movies_view movies) \<and>
    (\<forall>rt'. RAPIDAPI_KEY rt' = RAPIDAPI_KEY rt \<and> number_to_string rt' = number_to_string rt \<and>
         fetch rt' (api_request rt (''https://moviedatabase8.p.rapidapi.com/Filter?'' @ query)) =
         fetch rt (api_request rt (''https://moviedatabase8.p.rapidapi.com/Filter?'' @ query))
         \<longrightarrow>
         generate rt' (Call_filter_movies params) h = generate rt (Call_filter_movies params) h)"
proof -
  from assms obtain data where
    "zod_parse_optional filter_movies_parameters data = Some params"
    by (auto split: jsval.splits)
  from validated_URLSearchParams[OF this] obtain ps where
    ps: "URLSearchParams (number_to_string rt) params = Inr ps"
    by blast
  let ?query = "params_toString ps"
  let ?req = "api_request rt (''https://moviedatabase8.p.rapidapi.com/Filter?'' @ ?query)"
  have q: "filter_movies_query rt params = Inr ?query"
    using ps by (simp add: filter_movies_query_def and_then_def)
  have readback: "URLSearchParams (number_to_string rt) params = Inr (parse_query ?query)"
    using ps by (simp add: parse_query_toString)
  have keys: "map fst (parse_query ?query) = map fst params"
    using URLSearchParams_keys[OF ps] by (simp add: parse_query_toString)
  have err: "returned (generate rt (Call_filter_movies params) h) = Inl e"
    if "fetch rt ?req = Inl e" for e
    using that by (simp add: filter_movies_run[OF q])
  have nf: "returned (generate rt (Call_filter_movies params) h) =
      Inr (not_found (Call_filter_movies params))"
    if "fetch rt ?req = Inr resp" and "\<not> ok resp" for resp
    using that by (simp add: filter_movies_run[OF q])
  have view: "returned (generate rt (Call_filter_movies params) h) = filter_movies_view movies"
    if "fetch rt ?req = Inr resp" and "ok resp" and "json resp = Some movies" for resp movies
    using that by (simp add: filter_movies_run[OF q])
  have same: "generate rt' (Call_filter_movies params) h =
      generate rt (Call_filter_movies params) h"
    if "RAPIDAPI_KEY rt' = RAPIDAPI_KEY rt" and "number_to_string rt' = number_to_string rt"
      and "fetch rt' ?req = fetch rt ?req" for rt'
  proof -
    have q': "filter_movies_query rt' params = Inr ?query"
      using q filter_movies_query_runtime[OF that(2)] by simp
    have "api_request rt' (''https://moviedatabase8.p.rapidapi.com/Filter?'' @ ?query) = ?req"
      using that(1) by (simp add: api_request_def)
    with that(3) show ?thesis
      by (simp add: filter_movies_run[OF q] filter_movies_run[OF q'])
  qed
  from q readback keys err nf view same show ?thesis by blast
qed

theorem filter_query_keys_witness:
  "validate Filter_movies filter_args =
     Some (Call_filter_movies
       [(''MinRating'', JNum ''7''), (''MinYear'', JNum ''2010''), (''Genre'', JStr ''action'')]) \<and>
   filter_movies_query
       (routed_runtime
          ''https://moviedatabase8.p.rapidapi.com/Filter?MinRating=7&MinYear=2010&Genre=action''
          \<lparr>ok = False, json = None\<rparr>)
       [(''MinRating'', JNum ''7''), (''MinYear'', JNum ''2010''), (''Genre'', JStr ''action'')] =
     Inr ''MinRating=7&MinYear=2010&Genre=action'' \<and>
   map fst (parse_query ''MinRating=7&MinYear=2010&Genre=action'') =
     [''MinRating'', ''MinYear'', ''Genre''] \<and>
   returned (generate
       (routed_runtime
          ''https://moviedatabase8.p.rapidapi.com/Filter?MinRating=7&MinYear=2010&Genre=action''
          \<lparr>ok = False, json = None\<rparr>)
       (Call_filter_movies
         [(''MinRating'', JNum ''7''), (''MinYear'', JNum ''2010''), (''Genre'', JStr ''action'')])
       (getMutableAIState [])) =
     Inr (El ''div'' [] [Text ''No movies found with the specified criteria!''])"
proof -
  let ?rt = "routed_runtime
      ''https://moviedatabase8.p.rapidapi.com/Filter?MinRating=7&MinYear=2010&Genre=action''
      \<lparr>ok = False, json = None\<rparr>"
  let ?params = "[(''MinRating'', JNum ''7''), (''MinYear'', JNum ''2010''),
      (''Genre'', JStr ''action'')] :: (string \<times> string jsval) list"
  have v: "validate Filter_movies filter_args = Some (Call_filter_movies ?params)"
    by (simp add: filter_args_def filter_movies_parameters_def)
  have q: "filter_movies_query ?rt ?params = Inr ''MinRating=7&MinYear=2010&Genre=action''"
    by (simp add: filter_movies_query_def URLSearchParams_def params_toString_def and_then_def
        form_urlencode_def encode_byte_def unreserved_def routed_runtime_def)
  have f: "fetch ?rt (api_request ?rt
      (''https://moviedatabase8.p.rapidapi.com/Filter?'' @ ''MinRating=7&MinYear=2010&Genre=action''))
      = Inr \<lparr>ok = False, json = None\<rparr>"
    by (simp add: routed_runtime_def api_request_def)
  from filter_query_keys[OF v, of ?rt "getMutableAIState []"] obtain query where
    q': "filter_movies_query ?rt ?params = Inr query"
    and k: "map fst (parse_query query) = map fst ?params"
    and n: "\<forall>resp. fetch ?rt
          (api_request ?rt (''https://moviedatabase8.p.rapidapi.com/Filter?'' @ query)) = Inr resp \<and>
          \<not> ok resp \<longrightarrow>
        returned (generate ?rt (Call_filter_movies ?params) (getMutableAIState [])) =
          Inr (not_found (Call_filter_movies ?params))"
    by blast
  from q q' have e: "query = ''MinRating=7&MinYear=2010&Genre=action''" by simp
  from k e have k': "map fst (parse_query ''MinRating=7&MinYear=2010&Genre=action'') =
      [''MinRating'', ''MinYear'', ''Genre'']"
    by simp
  from n e f have r: "returned (generate ?rt (Call_filter_movies ?params) (getMutableAIState [])) =
      Inr (not_found (Call_filter_movies ?params))"
    by simp
  from v q k' r show ?thesis by simp
qed

end
